theory Spec2Isabelle
  imports Main "HOL-Library.Word"
begin

text \<open>
  A shallow embedding of the photobooth repository: the two route handlers
  (\<open>api/photobooth/edit\<close> and \<open>api/photobooth/upload\<close>), the two outbound operations of the
  client page, and the countdown of the photobooth page. Handlers take their environment
  (variables, clock, file system, upstream provider) as arguments and return their response
  together with the effects they had; thrown values are results of a sum type.
\<close>

section \<open>Common data\<close>

type_synonym byte = "8 word"
type_synonym bytes = "byte list"

text \<open>
  A thrown JavaScript value: an \<open>Error\<close> instance with its message, or any other value.
  Both handlers turn it into a message with \<open>err instanceof Error ? err.message : fallback\<close>.
\<close>

datatype exn = Error string | NonError

definition exn_message :: "string \<Rightarrow> exn \<Rightarrow> string" where
  "exn_message fallback err = (case err of Error m \<Rightarrow> m | NonError \<Rightarrow> fallback)"

text \<open>
  A \<open>File\<close> of the multipart body. The upload handler reads the name through \<open>file.name?.\<close>,
  so the name may be undefined.
\<close>

record File =
  file_name :: "string option"
  file_type :: string
  file_bytes :: bytes

text \<open>\<open>FormDataEntryValue\<close>: a text field or a file.\<close>

datatype entry = Text string | FileEntry File

text \<open>
  The parsed multipart body, with the two fields the handlers read: each is an entry or
  null. The cast of \<open>form.get("file") as File | null\<close> checks nothing at run time, so the
  \<open>file\<close> field may hold a string.
\<close>

record formData =
  get_file :: "entry option"
  get_instruction :: "entry option"

text \<open>A request is the outcome of \<open>await req.formData()\<close>, which throws on a body it cannot parse.\<close>

type_synonym request = "exn + formData"

datatype body = Json "(string \<times> string) list" | Raw bytes

record response =
  status :: nat
  headers :: "(string \<times> string) list"
  body :: body

text \<open>
  \<open>NextResponse.json(payload, {status})\<close>. The headers of a response are those the handler
  passes itself; the content type that the framework adds to a JSON answer is not listed.
\<close>

definition NextResponse_json :: "(string \<times> string) list \<Rightarrow> nat \<Rightarrow> response" where
  "NextResponse_json payload st = \<lparr>status = st, headers = [], body = Json payload\<rparr>"

text \<open>JavaScript truthiness of a string: every string but the empty one.\<close>

definition truthy :: "string \<Rightarrow> bool" where
  "truthy s \<longleftrightarrow> s \<noteq> []"

text \<open>\<open>!file\<close> on an entry or null: null and the empty string are falsy, a \<open>File\<close> never is.\<close>

definition falsy :: "entry option \<Rightarrow> bool" where
  "falsy e = (case e of None \<Rightarrow> True | Some (Text s) \<Rightarrow> \<not> truthy s | Some (FileEntry f) \<Rightarrow> False)"

text \<open>
  What the JavaScript platform gives and the repository does not define:
  \<open>Buffer.toString("base64")\<close>, \<open>Buffer.from(s, "base64")\<close>, \<open>path.join\<close>,
  \<open>String.prototype.toLowerCase\<close>, and the \<open>TypeError\<close> thrown by the call
  \<open>file.arrayBuffer()\<close> when \<open>file\<close> is a string, which has no such method.
\<close>

record platform =
  toBase64 :: "bytes \<Rightarrow> string"
  fromBase64 :: "string \<Rightarrow> bytes"
  path_join :: "string list \<Rightarrow> string"
  toLowerCase :: "string \<Rightarrow> string"
  arrayBuffer_TypeError :: exn

section \<open>Edit handler (api/photobooth/edit/route.ts)\<close>

record inline_data =
  mimeType :: "string option"
  data :: "string option"

record part =
  inlineData :: "inline_data option"
  part_text :: "string option"

record content =
  role :: "string option"
  parts :: "part list option"

record generate_request =
  model :: string
  contents :: "content list"

record candidate =
  candidate_content :: "content option"

record generate_response =
  candidates :: "candidate list option"

text \<open>The upstream provider: \<open>new GoogleGenAI({apiKey}).models.generateContent(request)\<close>.\<close>

type_synonym provider = "string \<Rightarrow> generate_request \<Rightarrow> exn + generate_response"

record edit_env =
  GEMINI_API_KEY :: "string option"

datatype effect = UpstreamCall string generate_request | ConsoleError exn

definition fileToBase64 :: "platform \<Rightarrow> File \<Rightarrow> string" where
  "fileToBase64 P f = toBase64 P (file_bytes f)"

text \<open>\<open>String(form.get("instruction") ?? "")\<close>\<close>

definition instruction_string :: "entry option \<Rightarrow> string" where
  "instruction_string e =
     (case e of None \<Rightarrow> [] | Some (Text s) \<Rightarrow> s | Some (FileEntry f) \<Rightarrow> ''[object File]'')"

text \<open>\<open>response.candidates?.[0]?.content?.parts ?? []\<close>\<close>

definition response_parts :: "generate_response \<Rightarrow> part list" where
  "response_parts r =
     (case candidates r of
        None \<Rightarrow> []
      | Some [] \<Rightarrow> []
      | Some (c # _) \<Rightarrow>
          (case candidate_content c of
             None \<Rightarrow> []
           | Some ct \<Rightarrow> (case parts ct of None \<Rightarrow> [] | Some ps \<Rightarrow> ps)))"

text \<open>\<open>p.inlineData?.data !== undefined\<close>\<close>

definition has_inline_data :: "part \<Rightarrow> bool" where
  "has_inline_data p = (case inlineData p of None \<Rightarrow> False | Some d \<Rightarrow> data d \<noteq> None)"

definition no_image :: response where
  "no_image = NextResponse_json [(''error'', ''No image returned from model'')] 502"

definition image_response :: "platform \<Rightarrow> inline_data \<Rightarrow> string \<Rightarrow> response" where
  "image_response P d outBase64 =
     \<lparr>status = 200,
      headers =
        [(''Content-Type'',
            (case mimeType d of
               None \<Rightarrow> ''image/png''
             | Some m \<Rightarrow> if truthy m then m else ''image/png'')),
         (''Cache-Control'', ''no-store'')],
      body = Raw (fromBase64 P outBase64)\<rparr>"

text \<open>Lines 64 to 85: find the first returned image and answer with its bytes.\<close>

definition extract_image :: "platform \<Rightarrow> generate_response \<Rightarrow> response" where
  "extract_image P r =
     (case find has_inline_data (response_parts r) of
        None \<Rightarrow> no_image
      | Some imgPart \<Rightarrow>
          (case inlineData imgPart of
             None \<Rightarrow> no_image
           | Some d \<Rightarrow>
               (case data d of
                  None \<Rightarrow> no_image
                | Some outBase64 \<Rightarrow>
                    if \<not> truthy outBase64 then no_image else image_response P d outBase64)))"

definition edit_request :: "platform \<Rightarrow> File \<Rightarrow> string \<Rightarrow> generate_request" where
  "edit_request P f instruction =
     \<lparr>model = ''gemini-2.5-flash-image'',
      contents =
        [\<lparr>role = Some ''user'',
          parts = Some
            [\<lparr>inlineData = Some
                 \<lparr>mimeType = Some (if truthy (file_type f) then file_type f else ''image/jpeg''),
                  data = Some (fileToBase64 P f)\<rparr>,
               part_text = None\<rparr>,
             \<lparr>inlineData = None, part_text = Some instruction\<rparr>]\<rparr>]\<rparr>"

text \<open>
  The body of the \<open>try\<close> block: the response returned, or the value thrown. After the three
  validations \<open>fileToBase64(file)\<close> calls \<open>file.arrayBuffer()\<close>, which throws when the entry
  is a string.
\<close>

definition edit_try :: "platform \<Rightarrow> edit_env \<Rightarrow> provider \<Rightarrow> request \<Rightarrow> (exn + response) \<times> effect list" where
  "edit_try P env generateContent req =
     (case req of
        Inl err \<Rightarrow> (Inl err, [])
      | Inr form \<Rightarrow>
          (let file = get_file form;
               instruction = instruction_string (get_instruction form)
           in
           if falsy file
           then (Inr (NextResponse_json [(''error'', ''Missing file'')] 400), [])
           else if \<not> truthy instruction
           then (Inr (NextResponse_json [(''error'', ''Missing instruction'')] 400), [])
           else
             (case GEMINI_API_KEY env of
                None \<Rightarrow> (Inr (NextResponse_json [(''error'', ''Missing GEMINI_API_KEY'')] 500), [])
              | Some apiKey \<Rightarrow>
                  if \<not> truthy apiKey
                  then (Inr (NextResponse_json [(''error'', ''Missing GEMINI_API_KEY'')] 500), [])
                  else
                    (case file of
                       Some (FileEntry f) \<Rightarrow>
                         (let call = edit_request P f instruction in
                          case generateContent apiKey call of
                            Inl err \<Rightarrow> (Inl err, [UpstreamCall apiKey call])
                          | Inr r \<Rightarrow> (Inr (extract_image P r), [UpstreamCall apiKey call]))
                     | _ \<Rightarrow> (Inl (arrayBuffer_TypeError P), [])))))"

definition POST_edit :: "platform \<Rightarrow> edit_env \<Rightarrow> provider \<Rightarrow> request \<Rightarrow> response \<times> effect list" where
  "POST_edit P env generateContent req =
     (case edit_try P env generateContent req of
        (Inr res, effs) \<Rightarrow> (res, effs)
      | (Inl err, effs) \<Rightarrow>
          (NextResponse_json [(''error'', exn_message ''Server error'' err)] 500,
           effs @ [ConsoleError err]))"

definition upstream_calls :: "effect list \<Rightarrow> (string \<times> generate_request) list" where
  "upstream_calls effs =
     concat (map (\<lambda>e. case e of UpstreamCall k c \<Rightarrow> [(k, c)] | ConsoleError _ \<Rightarrow> []) effs)"

section \<open>Upload handler (api/photobooth/upload/route.ts)\<close>

text \<open>\<open>s.split(sep)\<close> for a one-character separator: never empty, \<open>"".split(".")\<close> is \<open>[""]\<close>.\<close>

fun split_on :: "char \<Rightarrow> string \<Rightarrow> string list" where
  "split_on sep [] = [[]]"
| "split_on sep (c # cs) =
     (if c = sep then [] # split_on sep cs
      else (case split_on sep cs of [] \<Rightarrow> [[c]] | w # ws \<Rightarrow> (c # w) # ws))"

text \<open>\<open>Array.prototype.pop\<close>: the last element, undefined on an empty array.\<close>

definition pop :: "'a list \<Rightarrow> 'a option" where
  "pop xs = (if xs = [] then None else Some (last xs))"

text \<open>The decimal digits of a number, as a template literal prints \<open>Date.now()\<close>.\<close>

definition digit :: "nat \<Rightarrow> char" where
  "digit d = ''0123456789'' ! d"

fun show_nat :: "nat \<Rightarrow> string" where
  "show_nat n = (if n < 10 then [digit n] else show_nat (n div 10) @ [digit (n mod 10)])"

declare show_nat.simps [simp del]

text \<open>
  \<open>(file.name?.split(".").pop() || "png").toLowerCase()\<close>: the left operand of \<open>||\<close> is
  \<open>name_extension\<close>, and the right one is taken when the left one is undefined or empty.
\<close>

definition name_extension :: "File \<Rightarrow> string option" where
  "name_extension f = (case file_name f of None \<Rightarrow> None | Some n \<Rightarrow> pop (split_on CHR ''.'' n))"

definition upload_ext :: "platform \<Rightarrow> File \<Rightarrow> string" where
  "upload_ext P f =
     toLowerCase P
       (case name_extension f of
          None \<Rightarrow> ''png''
        | Some seg \<Rightarrow> if truthy seg then seg else ''png'')"

text \<open>
  The file system: the directories made and the content of each file, by path.
  \<open>fs.writeFile(path, buffer)\<close> opens the path, which creates the file or truncates it to
  length 0, and then writes the buffer in one write; between the two steps the path holds the
  empty file, and that is the state a concurrent reader may see. The outcome of each call
  (success, or the error thrown at the opening or at the write) is the environment's.
\<close>

record fs =
  directories :: "string set"
  files :: "string \<rightharpoonup> bytes"

datatype write_outcome = WriteOk | OpenFails exn | WriteFails exn

record upload_env =
  cwd :: string
  now :: nat
  uuid :: string
  mkdir_outcome :: "exn option"
  writeFile_outcome :: write_outcome

definition opened :: "string \<Rightarrow> fs \<Rightarrow> fs" where
  "opened p w = w\<lparr>files := (files w)(p \<mapsto> [])\<rparr>"

definition written :: "string \<Rightarrow> bytes \<Rightarrow> fs \<Rightarrow> fs" where
  "written p bs w = w\<lparr>files := (files w)(p \<mapsto> bs)\<rparr>"

text \<open>The error thrown, if any, and the states of the file system that the call goes through.\<close>

definition fs_writeFile :: "write_outcome \<Rightarrow> string \<Rightarrow> bytes \<Rightarrow> fs \<Rightarrow> exn option \<times> fs list" where
  "fs_writeFile oc p bs w =
     (case oc of
        WriteOk \<Rightarrow> (None, [opened p w, written p bs w])
      | OpenFails err \<Rightarrow> (Some err, [])
      | WriteFails err \<Rightarrow> (Some err, [opened p w]))"

definition uploadsDir :: "platform \<Rightarrow> upload_env \<Rightarrow> string" where
  "uploadsDir P env = path_join P [cwd env, ''public'', ''uploads'']"

definition upload_filename :: "platform \<Rightarrow> upload_env \<Rightarrow> File \<Rightarrow> string" where
  "upload_filename P env f = show_nat (now env) @ ''-'' @ uuid env @ ''.'' @ upload_ext P f"

definition upload_filepath :: "platform \<Rightarrow> upload_env \<Rightarrow> File \<Rightarrow> string" where
  "upload_filepath P env f = path_join P [uploadsDir P env, upload_filename P env f]"

text \<open>
  The body of the \<open>try\<close> block: the response returned or the value thrown, and the successive
  states of the file system from the request on (the last one is the state left behind).
  \<open>file.arrayBuffer()\<close> throws when the entry is a string.
\<close>

definition upload_try :: "platform \<Rightarrow> upload_env \<Rightarrow> request \<Rightarrow> fs \<Rightarrow> (exn + response) \<times> fs list" where
  "upload_try P env req w =
     (case req of
        Inl err \<Rightarrow> (Inl err, [w])
      | Inr form \<Rightarrow>
          (let file = get_file form in
           if falsy file
           then (Inr (NextResponse_json [(''error'', ''Missing file'')] 400), [w])
           else
             (case file of
                Some (FileEntry f) \<Rightarrow>
                  (let buffer = file_bytes f in
                   case mkdir_outcome env of
                     Some err \<Rightarrow> (Inl err, [w])
                   | None \<Rightarrow>
                       (let w1 = w\<lparr>directories := insert (uploadsDir P env) (directories w)\<rparr>;
                            filename = upload_filename P env f;
                            filepath = path_join P [uploadsDir P env, filename]
                        in case fs_writeFile (writeFile_outcome env) filepath buffer w1 of
                             (Some err, states) \<Rightarrow> (Inl err, [w, w1] @ states)
                           | (None, states) \<Rightarrow>
                               (Inr (NextResponse_json [(''url'', ''/uploads/'' @ filename)] 200),
                                [w, w1] @ states)))
              | _ \<Rightarrow> (Inl (arrayBuffer_TypeError P), [w]))))"

record upload_outcome =
  upload_response :: response
  upload_history :: "fs list"
  upload_logged :: "exn list"

definition POST_upload :: "platform \<Rightarrow> upload_env \<Rightarrow> request \<Rightarrow> fs \<Rightarrow> upload_outcome" where
  "POST_upload P env req w =
     (case upload_try P env req w of
        (Inr res, hist) \<Rightarrow> \<lparr>upload_response = res, upload_history = hist, upload_logged = []\<rparr>
      | (Inl err, hist) \<Rightarrow>
          \<lparr>upload_response = NextResponse_json [(''error'', exn_message ''Upload failed'' err)] 500,
           upload_history = hist,
           upload_logged = [err]\<rparr>)"

section \<open>Client page (app/dev/edit-test/page.tsx)\<close>

datatype loading = Upload | Edit

record page =
  page_file :: "File option"
  instruction :: string
  loading :: "loading option"
  resultUrl :: "string option"
  error :: "string option"

text \<open>
  A \<open>fetch\<close> response: the \<open>ok\<close> flag, the body as \<open>res.json()\<close> parses it (an object with
  string members, as \<open>ApiError\<close> and \<open>UploadOk\<close> declare; \<open>None\<close> when the body is not one)
  and the body as bytes.
\<close>

record fetch_response =
  ok :: bool
  json :: "(string \<rightharpoonup> string) option"
  blob :: bytes

text \<open>\<open>isApiError(data) ? data.error : fallback\<close> and \<open>data?.error ?? fallback\<close>\<close>

definition error_or :: "string \<Rightarrow> (string \<rightharpoonup> string) option \<Rightarrow> string" where
  "error_or fallback d =
     (case d of
        None \<Rightarrow> fallback
      | Some obj \<Rightarrow> (case obj ''error'' of None \<Rightarrow> fallback | Some m \<Rightarrow> m))"

text \<open>The statements before the \<open>await fetch\<close>, and the ones after it.\<close>

definition saveLocally_begin :: "page \<Rightarrow> page" where
  "saveLocally_begin s = s\<lparr>loading := Some Upload, error := None, resultUrl := None\<rparr>"

definition saveLocally_resume :: "fetch_response \<Rightarrow> page \<Rightarrow> page" where
  "saveLocally_resume res s =
     (if \<not> ok res then s\<lparr>error := Some (error_or ''Upload failed'' (json res)), loading := None\<rparr>
      else
        (case (case json res of None \<Rightarrow> None | Some obj \<Rightarrow> obj ''url'') of
           Some u \<Rightarrow> s\<lparr>resultUrl := Some u, loading := None\<rparr>
         | None \<Rightarrow> s\<lparr>error := Some ''Upload failed'', loading := None\<rparr>))"

text \<open>
  \<open>fetch\<close> is the network: it answers with a response or rejects. A rejection is not caught,
  so nothing after the \<open>await\<close> runs.
\<close>

definition saveLocally :: "(File \<Rightarrow> exn + fetch_response) \<Rightarrow> page \<Rightarrow> page" where
  "saveLocally fetch s =
     (case page_file s of
        None \<Rightarrow> s
      | Some f \<Rightarrow>
          (case fetch f of
             Inl err \<Rightarrow> saveLocally_begin s
           | Inr res \<Rightarrow> saveLocally_resume res (saveLocally_begin s)))"

definition editWithGemini_begin :: "page \<Rightarrow> page" where
  "editWithGemini_begin s = s\<lparr>loading := Some Edit, error := None, resultUrl := None\<rparr>"

definition editWithGemini_resume :: "(bytes \<Rightarrow> string) \<Rightarrow> fetch_response \<Rightarrow> page \<Rightarrow> page" where
  "editWithGemini_resume createObjectURL res s =
     (if \<not> ok res
      then s\<lparr>error := Some (error_or ''Edit failed (check your /api/photobooth/edit backend)'' (json res)),
             loading := None\<rparr>
      else s\<lparr>resultUrl := Some (createObjectURL (blob res)), loading := None\<rparr>)"

definition editWithGemini ::
  "(File \<Rightarrow> string \<Rightarrow> exn + fetch_response) \<Rightarrow> (bytes \<Rightarrow> string) \<Rightarrow> page \<Rightarrow> page" where
  "editWithGemini fetch createObjectURL s =
     (case page_file s of
        None \<Rightarrow> s
      | Some f \<Rightarrow>
          (case fetch f (instruction s) of
             Inl err \<Rightarrow> editWithGemini_begin s
           | Inr res \<Rightarrow> editWithGemini_resume createObjectURL res (editWithGemini_begin s)))"

section \<open>Countdown of the photobooth page\<close>

text \<open>
  The state the countdown reads and writes: the React state \<open>isCountingDown\<close> and \<open>countdown\<close>,
  the refs \<open>countdownTimer\<close>, \<open>streamRef\<close> and \<open>videoRef\<close> (set or null), the handles of the
  window's live intervals, the next handle \<open>setInterval\<close> returns, and the number of times
  \<open>captureFrame\<close> has been called. \<open>startCountdown\<close> is a closure of the render that made
  it: the \<open>isCountingDown\<close> it tests is the value at that render, kept here as
  \<open>rendered_isCountingDown\<close> and refreshed by each render.
\<close>

record booth =
  isCountingDown :: bool
  rendered_isCountingDown :: bool
  countdown :: "int option"
  countdownTimer :: "nat option"
  streamRef :: bool
  videoRef :: bool
  cameraActive :: bool
  cameraError :: "string option"
  intervals :: "nat set"
  next_handle :: nat
  captures :: nat

definition clearInterval :: "nat \<Rightarrow> booth \<Rightarrow> booth" where
  "clearInterval h s = s\<lparr>intervals := intervals s - {h}\<rparr>"

text \<open>The call of \<open>captureFrame\<close> is recorded; the frame grab itself is not part of this model.\<close>

definition captureFrame :: "booth \<Rightarrow> booth" where
  "captureFrame s = s\<lparr>captures := Suc (captures s)\<rparr>"

text \<open>\<open>if (countdownTimer.current) window.clearInterval(countdownTimer.current)\<close>: a handle 0 is falsy.\<close>

definition clear_current :: "booth \<Rightarrow> booth" where
  "clear_current s =
     (case countdownTimer s of
        None \<Rightarrow> s
      | Some h \<Rightarrow> if h \<noteq> 0 then clearInterval h s else s)"

definition startCountdown :: "booth \<Rightarrow> booth" where
  "startCountdown s =
     (if \<not> streamRef s \<or> \<not> videoRef s then s\<lparr>cameraError := Some ''Enable the camera first.''\<rparr>
      else if rendered_isCountingDown s then s
      else
        (let s1 = clear_current s;
             s2 = s1\<lparr>isCountingDown := True, countdown := Some 5\<rparr>;
             h = next_handle s2
         in s2\<lparr>countdownTimer := Some h, intervals := insert h (intervals s2), next_handle := Suc h\<rparr>))"

text \<open>
  One invocation of the updater passed to \<open>setCountdown\<close>, on the previous value: the value it
  returns, and the state after its side effects (\<open>clearInterval\<close>, the ref set to null,
  \<open>setIsCountingDown(false)\<close>, \<open>captureFrame()\<close>). Its inner \<open>setCountdown(null)\<close> asks for
  the value that it returns as well.
\<close>

definition updater :: "int option \<Rightarrow> booth \<Rightarrow> int option \<times> booth" where
  "updater prev s =
     (case prev of
        None \<Rightarrow> (None, s)
      | Some n \<Rightarrow>
          if n = 0 then (Some n, s)
          else if n \<le> 1 then
            (let s1 =
               (case countdownTimer s of
                  None \<Rightarrow> s
                | Some h \<Rightarrow> if h \<noteq> 0 then (clearInterval h s)\<lparr>countdownTimer := None\<rparr> else s)
             in (None, captureFrame (s1\<lparr>isCountingDown := False\<rparr>)))
          else (Some (n - 1), s))"

text \<open>
  The callback given to \<open>setInterval\<close> hands the updater to React, which invokes it on the
  current value: once, or twice on the same value when the page runs under StrictMode.
\<close>

definition interval_callback :: "bool \<Rightarrow> booth \<Rightarrow> booth" where
  "interval_callback strict s =
     (let prev = countdown s;
          (r, s1) = updater prev s;
          (r2, s2) = (if strict then updater prev s1 else (r, s1))
      in s2\<lparr>countdown := r2\<rparr>)"

text \<open>A render: the handlers are made anew and close over the current state.\<close>

definition render :: "booth \<Rightarrow> booth" where
  "render s = s\<lparr>rendered_isCountingDown := isCountingDown s\<rparr>"

text \<open>The cleanup of the mount effect.\<close>

definition cleanupCamera :: "booth \<Rightarrow> booth" where
  "cleanupCamera s = s\<lparr>streamRef := False, cameraActive := False\<rparr>"

definition unmount :: "booth \<Rightarrow> booth" where
  "unmount s = clear_current (cleanupCamera s)"

text \<open>
  Events: a call of the \<open>startCountdown\<close> of the last render, a render, the window firing the
  interval with a handle (one second after its start or its last firing; only a live interval
  fires), and the unmount. The flag says whether the page runs under StrictMode.
\<close>

datatype event = StartCountdown | Render | Fire nat | Unmount

definition step :: "bool \<Rightarrow> event \<Rightarrow> booth \<Rightarrow> booth" where
  "step strict e s =
     (case e of
        StartCountdown \<Rightarrow> startCountdown s
      | Render \<Rightarrow> render s
      | Fire h \<Rightarrow> if h \<in> intervals s then interval_callback strict s else s
      | Unmount \<Rightarrow> unmount s)"

fun run :: "bool \<Rightarrow> event list \<Rightarrow> booth \<Rightarrow> booth" where
  "run strict [] s = s"
| "run strict (e # es) s = run strict es (step strict e s)"

definition mounted :: booth where
  "mounted =
     \<lparr>isCountingDown = False, rendered_isCountingDown = False, countdown = None,
      countdownTimer = None, streamRef = False, videoRef = False, cameraActive = False,
      cameraError = None, intervals = {}, next_handle = 1, captures = 0\<rparr>"

section \<open>A concrete platform, to run the handlers\<close>

text \<open>
  Canonical RFC 4648 base64, \<open>path.join\<close> on segments that need no normalisation,
  lower-casing of the ASCII letters (what \<open>toLowerCase\<close> does on an ASCII string), and the
  \<open>TypeError\<close> as V8 words it. The concrete inputs below are ASCII.
\<close>

definition lower_char :: "char \<Rightarrow> char" where
  "lower_char c =
     (case map_of (zip ''ABCDEFGHIJKLMNOPQRSTUVWXYZ'' ''abcdefghijklmnopqrstuvwxyz'') c of
        None \<Rightarrow> c
      | Some l \<Rightarrow> l)"

definition b64_alphabet :: string where
  "b64_alphabet = ''ABCDEFGHIJKLMNOPQRSTUVWXYZabcdefghijklmnopqrstuvwxyz0123456789+/''"

definition b64_char :: "nat \<Rightarrow> char" where
  "b64_char n = b64_alphabet ! n"

fun b64_encode :: "nat list \<Rightarrow> string" where
  "b64_encode [] = []"
| "b64_encode [a] = [b64_char (a div 4), b64_char (a mod 4 * 16), CHR ''='', CHR ''='']"
| "b64_encode [a, b] =
     [b64_char (a div 4), b64_char (a mod 4 * 16 + b div 16), b64_char (b mod 16 * 4), CHR ''='']"
| "b64_encode (a # b # c # r) =
     [b64_char (a div 4), b64_char (a mod 4 * 16 + b div 16),
      b64_char (b mod 16 * 4 + c div 64), b64_char (c mod 64)] @ b64_encode r"

fun index_of :: "'a \<Rightarrow> 'a list \<Rightarrow> nat option" where
  "index_of x [] = None"
| "index_of x (y # ys) = (if x = y then Some 0 else map_option Suc (index_of x ys))"

definition b64_value :: "char \<Rightarrow> nat option" where
  "b64_value c = index_of c b64_alphabet"

fun b64_decode :: "string \<Rightarrow> nat list" where
  "b64_decode (a # b # c # d # r) =
     (case (b64_value a, b64_value b) of
        (Some x, Some y) \<Rightarrow>
          (x * 4 + y div 16) #
          (case b64_value c of
             None \<Rightarrow> []
           | Some z \<Rightarrow>
               (y mod 16 * 16 + z div 4) #
               (case b64_value d of
                  None \<Rightarrow> []
                | Some v \<Rightarrow> (z mod 4 * 64 + v) # b64_decode r))
      | _ \<Rightarrow> [])"
| "b64_decode _ = []"

fun join_paths :: "string list \<Rightarrow> string" where
  "join_paths [] = ''.''"
| "join_paths [s] = s"
| "join_paths (s # ss) = s @ ''/'' @ join_paths ss"

definition node :: platform where
  "node =
     \<lparr>toBase64 = (\<lambda>bs. b64_encode (map unat bs)),
      fromBase64 = (\<lambda>s. map of_nat (b64_decode s)),
      path_join = join_paths,
      toLowerCase = map lower_char,
      arrayBuffer_TypeError = Error ''file.arrayBuffer is not a function''\<rparr>"

section \<open>Concrete inputs\<close>

definition photo :: File where
  "photo = \<lparr>file_name = Some ''photo.JPG'', file_type = ''image/jpeg'', file_bytes = [255, 216, 255]\<rparr>"

definition answering :: "generate_response \<Rightarrow> provider" where
  "answering r = (\<lambda>apiKey call. Inr r)"

definition inline_part :: "string option \<Rightarrow> string \<Rightarrow> part" where
  "inline_part m d = \<lparr>inlineData = Some \<lparr>mimeType = m, data = Some d\<rparr>, part_text = None\<rparr>"

definition text_part :: "string \<Rightarrow> part" where
  "text_part t = \<lparr>inlineData = None, part_text = Some t\<rparr>"

definition one_candidate :: "part list \<Rightarrow> generate_response" where
  "one_candidate ps =
     \<lparr>candidates = Some [\<lparr>candidate_content = Some \<lparr>role = Some ''model'', parts = Some ps\<rparr>\<rparr>]\<rparr>"

definition key_env :: edit_env where
  "key_env = \<lparr>GEMINI_API_KEY = Some ''k''\<rparr>"

definition edit_form :: "string \<Rightarrow> formData" where
  "edit_form instr = \<lparr>get_file = Some (FileEntry photo), get_instruction = Some (Text instr)\<rparr>"

definition text_as_file :: formData where
  "text_as_file =
     \<lparr>get_file = Some (Text ''hello''), get_instruction = Some (Text ''Corporate headshot'')\<rparr>"

definition empty_then_png :: generate_response where
  "empty_then_png = one_candidate [inline_part None [], inline_part (Some ''image/png'') ''iVBORw=='']"

definition named :: "string \<Rightarrow> File" where
  "named n = \<lparr>file_name = Some n, file_type = ''image/png'', file_bytes = [137, 80, 78, 71]\<rparr>"

definition upload_form :: "File \<Rightarrow> formData" where
  "upload_form f = \<lparr>get_file = Some (FileEntry f), get_instruction = None\<rparr>"

definition disk_ok :: upload_env where
  "disk_ok =
     \<lparr>cwd = ''/app'', now = 1700000000000, uuid = ''123e4567-e89b-42d3-a456-426614174000'',
      mkdir_outcome = None, writeFile_outcome = WriteOk\<rparr>"

definition empty_fs :: fs where
  "empty_fs = \<lparr>directories = {}, files = Map.empty\<rparr>"

definition shown :: page where
  "shown =
     \<lparr>page_file = Some photo, instruction = ''Corporate headshot'', loading = None,
      resultUrl = Some ''/uploads/old.png'', error = None\<rparr>"

definition failed :: fetch_response where
  "failed = \<lparr>ok = False, json = Some [''error'' \<mapsto> ''Missing file''], blob = []\<rparr>"

definition upload_replies :: "fetch_response \<Rightarrow> File \<Rightarrow> exn + fetch_response" where
  "upload_replies res = (\<lambda>f. Inr res)"

definition edit_replies :: "fetch_response \<Rightarrow> File \<Rightarrow> string \<Rightarrow> exn + fetch_response" where
  "edit_replies res = (\<lambda>f i. Inr res)"

definition object_url :: "bytes \<Rightarrow> string" where
  "object_url bs = ''blob:result''"

definition camera_on :: booth where
  "camera_on = mounted\<lparr>streamRef := True, videoRef := True, cameraActive := True\<rparr>"

section \<open>Properties of the edit handler\<close>

lemmas edit_defs = POST_edit_def edit_try_def instruction_string_def truthy_def falsy_def
  upstream_calls_def Let_def

lemmas sample_defs = photo_def answering_def inline_part_def text_part_def one_candidate_def
  key_env_def edit_form_def

text \<open>
  Once the three validations pass on a request whose file entry is a \<open>File\<close>, the handler
  calls the provider exactly once and answers from its result.
\<close>

lemma edit_reaches_extraction:
  assumes "get_file form = Some (FileEntry f)"
    and "instruction_string (get_instruction form) = instr" and "instr \<noteq> []"
    and "GEMINI_API_KEY env = Some k" and "k \<noteq> []"
  shows "POST_edit P env gen (Inr form) =
     (case gen k (edit_request P f instr) of
        Inl err \<Rightarrow> (NextResponse_json [(''error'', exn_message ''Server error'' err)] 500,
                    [UpstreamCall k (edit_request P f instr), ConsoleError err])
      | Inr r \<Rightarrow> (extract_image P r, [UpstreamCall k (edit_request P f instr)]))"
  using assms
  by (simp add: POST_edit_def edit_try_def truthy_def falsy_def Let_def split: sum.splits)

lemma response_parts_one_candidate: "response_parts (one_candidate ps) = ps"
  by (simp add: response_parts_def one_candidate_def)

text \<open>
  Claim C1. The handler is to return the first part that carries inline image data. On a
  response whose first part has the empty string as inline data and whose second part carries
  a PNG payload it answers 502 "No image returned from model": \<open>find\<close> stops at the first part
  whose data field is defined, the guard after it rejects the empty payload, and the image in
  the second part is never looked at. With the two parts in the other order the image is
  returned.
\<close>

theorem edit_empty_payload_first:
  "response_parts empty_then_png = [inline_part None [], inline_part (Some ''image/png'') ''iVBORw==''] \<and>
   has_inline_data (inline_part (Some ''image/png'') ''iVBORw=='') \<and>
   status (fst (POST_edit node key_env (answering empty_then_png) (Inr (edit_form ''Corporate headshot'')))) = 502 \<and>
   body (fst (POST_edit node key_env (answering empty_then_png) (Inr (edit_form ''Corporate headshot'')))) =
     Json [(''error'', ''No image returned from model'')] \<and>
   status (fst (POST_edit node key_env
      (answering (one_candidate [inline_part (Some ''image/png'') ''iVBORw=='', inline_part None []]))
      (Inr (edit_form ''Corporate headshot'')))) = 200 \<and>
   body (fst (POST_edit node key_env
      (answering (one_candidate [inline_part (Some ''image/png'') ''iVBORw=='', inline_part None []]))
      (Inr (edit_form ''Corporate headshot'')))) = Raw [137, 80, 78, 71]"
  by (simp add: edit_defs sample_defs empty_then_png_def response_parts_def has_inline_data_def
      extract_image_def no_image_def NextResponse_json_def image_response_def node_def
      b64_value_def b64_alphabet_def)

text \<open>
  Claim C2. A request without a file part is to be answered 400 (MissingInput). When the
  \<open>file\<close> field of the request is a text field with a non-empty value, there is no file part,
  but the string passes \<open>!file\<close>; with an instruction and a configured credential the handler
  goes on to \<open>fileToBase64\<close>, where \<open>file.arrayBuffer()\<close> throws, and the \<open>catch\<close> block
  answers 500 with the message of the \<open>TypeError\<close>. The provider is not called.
\<close>

theorem edit_text_field_named_file:
  "get_file text_as_file = Some (Text ''hello'') \<and>
   get_instruction text_as_file = Some (Text ''Corporate headshot'') \<and>
   GEMINI_API_KEY key_env = Some ''k'' \<and>
   status (fst (POST_edit node key_env (answering (one_candidate [])) (Inr text_as_file))) = 500 \<and>
   body (fst (POST_edit node key_env (answering (one_candidate [])) (Inr text_as_file))) =
     Json [(''error'', ''file.arrayBuffer is not a function'')] \<and>
   snd (POST_edit node key_env (answering (one_candidate [])) (Inr text_as_file)) =
     [ConsoleError (Error ''file.arrayBuffer is not a function'')]"
  by (simp add: edit_defs text_as_file_def key_env_def node_def NextResponse_json_def exn_message_def)

text \<open>
  Claim C7. Whenever the edit handler answers with status 200, the provider was called and
  returned a response whose first part with inline data has a payload \<open>s\<close>; the body is exactly
  the bytes that \<open>Buffer.from(s, "base64")\<close> yields, the \<open>Content-Type\<close> header is the part's
  declared MIME type, or \<open>image/png\<close> when none (or the empty string) is declared, and the
  only other header is \<open>Cache-Control: no-store\<close>.
\<close>

theorem edit_success_response:
  assumes "status (fst (POST_edit P env gen req)) = 200"
  shows "\<exists>form f k r i d s.
     req = Inr form \<and> get_file form = Some (FileEntry f) \<and> GEMINI_API_KEY env = Some k \<and>
     gen k (edit_request P f (instruction_string (get_instruction form))) = Inr r \<and>
     i < length (response_parts r) \<and> (\<forall>j<i. \<not> has_inline_data (response_parts r ! j)) \<and>
     inlineData (response_parts r ! i) = Some d \<and> data d = Some s \<and>
     body (fst (POST_edit P env gen req)) = Raw (fromBase64 P s) \<and>
     headers (fst (POST_edit P env gen req)) =
       [(''Content-Type'',
           (case mimeType d of None \<Rightarrow> ''image/png'' | Some m \<Rightarrow> if m = [] then ''image/png'' else m)),
        (''Cache-Control'', ''no-store'')]"
proof -
  from assms obtain form where req: "req = Inr form"
    by (cases req) (auto simp: POST_edit_def edit_try_def NextResponse_json_def)
  define instr where "instr = instruction_string (get_instruction form)"
  have not200: "status (NextResponse_json payload 400) \<noteq> 200"
    "status (NextResponse_json payload 500) \<noteq> 200" for payload
    by (simp_all add: NextResponse_json_def)
  from assms have present: "\<not> falsy (get_file form)"
    unfolding req by (auto simp: POST_edit_def edit_try_def Let_def not200)
  from assms present have instr: "instr \<noteq> []"
    unfolding req instr_def
    by (auto simp: POST_edit_def edit_try_def Let_def not200 truthy_def)
  from assms present instr obtain k where k: "GEMINI_API_KEY env = Some k" "k \<noteq> []"
    unfolding req instr_def
    by (cases "GEMINI_API_KEY env")
      (auto simp: POST_edit_def edit_try_def Let_def not200 truthy_def split: if_splits)
  from assms present instr k obtain f where f: "get_file form = Some (FileEntry f)"
    unfolding req instr_def
    by (cases "get_file form" rule: option.exhaust [case_names None Some])
      (auto simp: POST_edit_def edit_try_def Let_def not200 truthy_def split: entry.splits)
  note reach = edit_reaches_extraction [OF f instr_def [symmetric] instr k, of P gen]
  from assms obtain r where r: "gen k (edit_request P f instr) = Inr r"
    unfolding req reach by (cases "gen k (edit_request P f instr)") (auto simp: NextResponse_json_def)
  have out: "fst (POST_edit P env gen req) = extract_image P r"
    unfolding req reach r by simp
  from assms obtain p d s where sel: "find has_inline_data (response_parts r) = Some p"
      "inlineData p = Some d" "data d = Some s" "s \<noteq> []"
      and res: "extract_image P r = image_response P d s"
    unfolding out
    by (auto simp: extract_image_def no_image_def NextResponse_json_def truthy_def
        split: option.splits if_splits)
  from sel(1) obtain i where i: "i < length (response_parts r)" "response_parts r ! i = p"
      "\<forall>j<i. \<not> has_inline_data (response_parts r ! j)"
    by (auto simp: find_Some_iff)
  show ?thesis
    using req f k(1) r i sel res unfolding out instr_def
    by (auto simp: image_response_def truthy_def split: option.splits intro!: exI [of _ i])
qed

text \<open>
  The provider returns the base64 of the four-byte PNG signature: the body is these four bytes.
\<close>

theorem edit_success_response_witness:
  "status (fst (POST_edit node key_env (answering (one_candidate [inline_part (Some ''image/png'') ''iVBORw==''])) (Inr (edit_form ''Corporate headshot'')))) = 200 \<and>
   body (fst (POST_edit node key_env (answering (one_candidate [inline_part (Some ''image/png'') ''iVBORw==''])) (Inr (edit_form ''Corporate headshot'')))) = Raw [137, 80, 78, 71] \<and>
   headers (fst (POST_edit node key_env (answering (one_candidate [inline_part (Some ''image/png'') ''iVBORw==''])) (Inr (edit_form ''Corporate headshot'')))) =
     [(''Content-Type'', ''image/png''), (''Cache-Control'', ''no-store'')]"
proof -
  let ?r = "one_candidate [inline_part (Some ''image/png'') ''iVBORw=='']"
  let ?out = "fst (POST_edit node key_env (answering ?r) (Inr (edit_form ''Corporate headshot'')))"
  have ok: "status ?out = 200"
    by (simp add: edit_defs sample_defs extract_image_def response_parts_def has_inline_data_def
        image_response_def)
  from edit_success_response [OF ok] obtain form f k r i d s where
    sel: "Inr (edit_form ''Corporate headshot'') = (Inr form :: request)"
      "get_file form = Some (FileEntry f)"
      "GEMINI_API_KEY key_env = Some k"
      "answering ?r k (edit_request node f (instruction_string (get_instruction form))) = Inr r"
      "i < length (response_parts r)" "inlineData (response_parts r ! i) = Some d" "data d = Some s"
    and res: "body ?out = Raw (fromBase64 node s)"
      "headers ?out =
        [(''Content-Type'',
            (case mimeType d of None \<Rightarrow> ''image/png'' | Some m \<Rightarrow> if m = [] then ''image/png'' else m)),
         (''Cache-Control'', ''no-store'')]"
    by blast
  from sel(4) have r: "r = ?r" by (simp add: answering_def)
  from sel(5) have "i = 0" by (simp add: r response_parts_one_candidate)
  with sel(6,7) have d: "d = \<lparr>mimeType = Some ''image/png'', data = Some ''iVBORw==''\<rparr>" "s = ''iVBORw==''"
    by (auto simp: r response_parts_one_candidate inline_part_def)
  have "fromBase64 node ''iVBORw=='' = [137, 80, 78, 71]"
    by (simp add: node_def b64_value_def b64_alphabet_def)
  with ok res d show ?thesis by simp
qed

text \<open>
  Claim C10. The instruction is checked for truthiness only, never trimmed: for every
  non-empty instruction, one made of white space alone included, a request with a file part
  and a configured credential makes exactly one upstream call, whose user turn carries the
  encoded file and then the instruction text unchanged.
\<close>

theorem edit_whitespace_instruction:
  assumes "get_file form = Some (FileEntry f)"
    and "get_instruction form = Some (Text instr)"
    and "instr \<noteq> []"
    and "GEMINI_API_KEY env = Some k" and "k \<noteq> []"
  shows "upstream_calls (snd (POST_edit P env gen (Inr form))) =
     [(k, \<lparr>model = ''gemini-2.5-flash-image'',
           contents =
             [\<lparr>role = Some ''user'',
               parts = Some
                 [\<lparr>inlineData = Some
                      \<lparr>mimeType = Some (if file_type f = [] then ''image/jpeg'' else file_type f),
                       data = Some (toBase64 P (file_bytes f))\<rparr>,
                    part_text = None\<rparr>,
                  \<lparr>inlineData = None, part_text = Some instr\<rparr>]\<rparr>]\<rparr>)]"
proof -
  have "instruction_string (get_instruction form) = instr"
    using assms(2) by (simp add: instruction_string_def)
  from edit_reaches_extraction [OF assms(1) this assms(3) assms(4) assms(5)]
  show ?thesis
    by (auto simp: upstream_calls_def edit_request_def fileToBase64_def truthy_def split: sum.splits)
qed

text \<open>The instruction that is a single space reaches the provider as it is.\<close>

theorem edit_whitespace_instruction_witness:
  "upstream_calls (snd (POST_edit node key_env (answering (one_candidate [])) (Inr (edit_form '' '')))) =
     [(''k'', \<lparr>model = ''gemini-2.5-flash-image'',
           contents =
             [\<lparr>role = Some ''user'',
               parts = Some
                 [\<lparr>inlineData = Some \<lparr>mimeType = Some ''image/jpeg'', data = Some ''/9j/''\<rparr>,
                    part_text = None\<rparr>,
                  \<lparr>inlineData = None, part_text = Some '' ''\<rparr>]\<rparr>]\<rparr>)]"
  using edit_whitespace_instruction [of "edit_form '' ''" photo "'' ''" key_env "''k''" node
      "answering (one_candidate [])"]
  by (simp add: edit_form_def key_env_def photo_def node_def b64_char_def b64_alphabet_def)

section \<open>Properties of the upload handler\<close>

lemma split_on_not_Nil: "split_on sep s \<noteq> []"
  by (induction s) (auto split: list.splits)

lemma split_on_no_sep: "sep \<notin> set s \<Longrightarrow> split_on sep s = [s]"
  by (induction s) auto

lemma split_on_single: "split_on sep s = [w] \<Longrightarrow> sep \<notin> set s"
proof (induction s arbitrary: w)
  case Nil
  then show ?case by simp
next
  case (Cons c cs)
  obtain v vs where vs: "split_on sep cs = v # vs"
    using split_on_not_Nil [of sep cs] by (cases "split_on sep cs") auto
  from Cons.prems vs have "c \<noteq> sep" and "vs = []"
    by (auto split: if_splits)
  with vs Cons.IH [of v] show ?case by simp
qed

text \<open>The last piece of a string with a separator in it is what follows the last separator.\<close>

lemma last_split_on_sep:
  "sep \<in> set s \<Longrightarrow> \<exists>pre seg. s = pre @ sep # seg \<and> sep \<notin> set seg \<and> last (split_on sep s) = seg"
proof (induction s)
  case Nil
  then show ?case by simp
next
  case (Cons c cs)
  obtain v vs where vs: "split_on sep cs = v # vs"
    using split_on_not_Nil [of sep cs] by (cases "split_on sep cs") auto
  show ?case
  proof (cases "sep \<in> set cs")
    case True
    from Cons.IH [OF True] obtain pre seg where
      seg: "cs = pre @ sep # seg" "sep \<notin> set seg" "last (split_on sep cs) = seg"
      by blast
    have "vs \<noteq> []"
      using split_on_single [of sep cs v] vs True by auto
    then have "last (split_on sep (c # cs)) = seg"
      using vs seg(3) by simp
    moreover have "c # cs = (c # pre) @ sep # seg"
      using seg(1) by simp
    ultimately show ?thesis using seg(2) by blast
  next
    case False
    with Cons.prems have c: "c = sep" by simp
    have "last (split_on sep (c # cs)) = cs"
      using c False by (simp add: split_on_no_sep)
    moreover have "c # cs = [] @ sep # cs"
      using c by simp
    ultimately show ?thesis using False by blast
  qed
qed

lemma takeWhile_rev_after_sep:
  assumes "sep \<notin> set seg"
  shows "takeWhile (\<lambda>x. x \<noteq> sep) (rev (pre @ sep # seg)) = rev seg"
proof -
  have "takeWhile (\<lambda>x. x \<noteq> sep) (rev seg @ sep # rev pre) = takeWhile (\<lambda>x. x \<noteq> sep) (rev seg)"
    by (rule takeWhile_tail) simp
  moreover have "takeWhile (\<lambda>x. x \<noteq> sep) (rev seg) = rev seg"
    using assms by (induction seg) auto
  ultimately show ?thesis by simp
qed

lemma last_split_on_after_sep:
  assumes "sep \<notin> set seg"
  shows "last (split_on sep (pre @ sep # seg)) = seg"
proof -
  have "sep \<in> set (pre @ sep # seg)" by simp
  from last_split_on_sep [OF this] obtain pre' seg' where
    eq: "pre @ sep # seg = pre' @ sep # seg'" and no: "sep \<notin> set seg'"
    and l: "last (split_on sep (pre @ sep # seg)) = seg'"
    by blast
  from takeWhile_rev_after_sep [OF assms, of pre]
  have "takeWhile (\<lambda>x. x \<noteq> sep) (rev (pre' @ sep # seg')) = rev seg"
    unfolding eq .
  with takeWhile_rev_after_sep [OF no, of pre'] have "rev seg = rev seg'"
    by simp
  then have "seg = seg'" by simp
  with l show ?thesis by simp
qed

lemma upload_ext_no_dot:
  assumes "file_name f = Some n" and "n \<noteq> []" and "CHR ''.'' \<notin> set n"
  shows "upload_ext P f = toLowerCase P n"
proof -
  have "name_extension f = Some n"
    using assms by (simp add: name_extension_def pop_def split_on_no_sep)
  with assms(2) show ?thesis
    by (simp add: upload_ext_def truthy_def)
qed

lemma upload_ext_undefined: "file_name f = None \<Longrightarrow> upload_ext P f = toLowerCase P ''png''"
  by (simp add: upload_ext_def name_extension_def)

lemma upload_ext_empty: "file_name f = Some [] \<Longrightarrow> upload_ext P f = toLowerCase P ''png''"
  by (simp add: upload_ext_def name_extension_def pop_def truthy_def)

lemma upload_ext_dot_last:
  assumes "file_name f = Some n" and "n \<noteq> []" and "last n = CHR ''.''"
  shows "upload_ext P f = toLowerCase P ''png''"
proof -
  from assms(2,3) have n: "butlast n @ CHR ''.'' # [] = n"
    using append_butlast_last_id [of n] by simp
  have "last (split_on CHR ''.'' (butlast n @ CHR ''.'' # [])) = []"
    by (rule last_split_on_after_sep) simp
  then have "last (split_on CHR ''.'' n) = []"
    by (simp only: n)
  then have "name_extension f = Some []"
    using assms(1) by (simp add: name_extension_def pop_def split_on_not_Nil)
  then show ?thesis
    by (simp add: upload_ext_def truthy_def)
qed

lemma upload_ext_after_dot:
  assumes "file_name f = Some (pre @ CHR ''.'' # seg)" and "seg \<noteq> []" and "CHR ''.'' \<notin> set seg"
  shows "upload_ext P f = toLowerCase P seg"
proof -
  have "last (split_on CHR ''.'' (pre @ CHR ''.'' # seg)) = seg"
    using assms(3) by (rule last_split_on_after_sep)
  with assms(1) have "name_extension f = Some seg"
    by (simp add: name_extension_def pop_def split_on_not_Nil)
  with assms(2) show ?thesis
    by (simp add: upload_ext_def truthy_def)
qed

lemma POST_upload_file:
  assumes "get_file form = Some (FileEntry f)"
  shows "POST_upload P env (Inr form) w =
     (case mkdir_outcome env of
        Some err \<Rightarrow>
          \<lparr>upload_response = NextResponse_json [(''error'', exn_message ''Upload failed'' err)] 500,
           upload_history = [w], upload_logged = [err]\<rparr>
      | None \<Rightarrow>
          (case fs_writeFile (writeFile_outcome env) (upload_filepath P env f) (file_bytes f)
                  (w\<lparr>directories := insert (uploadsDir P env) (directories w)\<rparr>) of
             (Some err, states) \<Rightarrow>
               \<lparr>upload_response = NextResponse_json [(''error'', exn_message ''Upload failed'' err)] 500,
                upload_history = [w, w\<lparr>directories := insert (uploadsDir P env) (directories w)\<rparr>] @ states,
                upload_logged = [err]\<rparr>
           | (None, states) \<Rightarrow>
               \<lparr>upload_response = NextResponse_json [(''url'', ''/uploads/'' @ upload_filename P env f)] 200,
                upload_history = [w, w\<lparr>directories := insert (uploadsDir P env) (directories w)\<rparr>] @ states,
                upload_logged = []\<rparr>))"
  using assms
  by (simp add: POST_upload_def upload_try_def upload_filepath_def falsy_def Let_def
      split: option.splits prod.splits)

lemmas upload_eval = POST_upload_def upload_try_def fs_writeFile_def opened_def written_def
  falsy_def upload_filename_def uploadsDir_def upload_ext_def name_extension_def pop_def truthy_def
  lower_char_def show_nat.simps digit_def NextResponse_json_def Let_def
  node_def disk_ok_def upload_form_def empty_fs_def photo_def named_def




text \<open>
  Claim C5. For every parsed request with a file part, when \<open>fs.mkdir\<close> and \<open>fs.writeFile\<close>
  succeed, the upload handler answers 200 with the payload \<open>{url}\<close> where \<open>url\<close> is
  \<open>/uploads/\<close> followed by the stored file name, and the file of that name in
  \<open>cwd/public/uploads\<close> holds exactly the bytes of the uploaded file when the handler returns.
\<close>

theorem upload_round_trip:
  assumes "get_file form = Some (FileEntry f)"
    and "mkdir_outcome env = None" and "writeFile_outcome env = WriteOk"
  shows "upload_response (POST_upload P env (Inr form) w) =
       \<lparr>status = 200, headers = [], body = Json [(''url'', ''/uploads/'' @ upload_filename P env f)]\<rparr> \<and>
     files (last (upload_history (POST_upload P env (Inr form) w)))
       (path_join P [path_join P [cwd env, ''public'', ''uploads''], upload_filename P env f]) =
       Some (file_bytes f)"
  unfolding POST_upload_file [OF assms(1)] assms(2) assms(3)
  by (simp add: fs_writeFile_def NextResponse_json_def upload_filepath_def uploadsDir_def
      written_def)

text \<open>The upload of a three-byte JPEG.\<close>

theorem upload_round_trip_witness:
  "upload_response (POST_upload node disk_ok (Inr (upload_form photo)) empty_fs) =
     \<lparr>status = 200, headers = [],
      body = Json [(''url'', ''/uploads/1700000000000-123e4567-e89b-42d3-a456-426614174000.jpg'')]\<rparr> \<and>
   files (last (upload_history (POST_upload node disk_ok (Inr (upload_form photo)) empty_fs)))
     ''/app/public/uploads/1700000000000-123e4567-e89b-42d3-a456-426614174000.jpg'' =
     Some [255, 216, 255]"
  using upload_round_trip [of "upload_form photo" photo disk_ok node empty_fs]
  by (simp add: upload_eval)

text \<open>
  Claim C6. The stored name is the decimal time stamp, a dash, the UUID, a dot and the
  extension; but a file name without a dot does not get the fallback extension: for the
  name \<open>README\<close> the extension is \<open>readme\<close>, the whole name in lower case.
\<close>

theorem upload_name_without_dot:
  "upload_ext node (named ''README'') = ''readme'' \<and>
   upload_response (POST_upload node disk_ok (Inr (upload_form (named ''README''))) empty_fs) =
     \<lparr>status = 200, headers = [],
      body = Json [(''url'', ''/uploads/1700000000000-123e4567-e89b-42d3-a456-426614174000.readme'')]\<rparr>"
  by (simp add: upload_eval)

text \<open>
  Claim C9 does not hold as stated: the name \<open>photo.\<close> is neither empty nor undefined; what
  follows its last dot is empty, and the extension is the fallback \<open>png\<close>.
\<close>

theorem upload_fallback_counterexample:
  "file_name (named ''photo.'') = Some ''photo.'' \<and>
   name_extension (named ''photo.'') = Some [] \<and>
   upload_ext node (named ''photo.'') = ''png''"
  by (simp add: named_def upload_ext_def name_extension_def pop_def truthy_def node_def
      lower_char_def)

text \<open>
  Claim C9, amended. For a non-empty file name without a dot the extension is the whole name
  in lower case, not the fallback. The extension is the fallback \<open>png\<close> (in lower case) when
  the name is undefined, empty, or ends with a dot, and only then: a name with a dot that does
  not end with one has as extension the text after its last dot, in lower case.
\<close>

theorem upload_extension_cases:
  "(\<forall>n. file_name f = Some n \<and> n \<noteq> [] \<and> CHR ''.'' \<notin> set n \<longrightarrow>
      upload_ext P f = toLowerCase P n) \<and>
   (file_name f = None \<or> file_name f = Some [] \<or>
    (\<exists>n. file_name f = Some n \<and> n \<noteq> [] \<and> last n = CHR ''.'') \<longrightarrow>
      upload_ext P f = toLowerCase P ''png'') \<and>
   (\<forall>pre seg. file_name f = Some (pre @ CHR ''.'' # seg) \<and> seg \<noteq> [] \<and> CHR ''.'' \<notin> set seg \<longrightarrow>
      upload_ext P f = toLowerCase P seg)"
proof (intro conjI allI impI)
  fix n
  assume "file_name f = Some n \<and> n \<noteq> [] \<and> CHR ''.'' \<notin> set n"
  then show "upload_ext P f = toLowerCase P n"
    by (simp add: upload_ext_no_dot)
next
  assume "file_name f = None \<or> file_name f = Some [] \<or>
    (\<exists>n. file_name f = Some n \<and> n \<noteq> [] \<and> last n = CHR ''.'')"
  then show "upload_ext P f = toLowerCase P ''png''"
    using upload_ext_undefined [of f P] upload_ext_empty [of f P] upload_ext_dot_last [of f _ P]
    by blast
next
  fix pre seg
  assume "file_name f = Some (pre @ CHR ''.'' # seg) \<and> seg \<noteq> [] \<and> CHR ''.'' \<notin> set seg"
  then show "upload_ext P f = toLowerCase P seg"
    by (simp add: upload_ext_after_dot)
qed

text \<open>The names \<open>README\<close>, \<open>photo.\<close>, the empty name and \<open>photo.JPG\<close>.\<close>

theorem upload_extension_cases_witness:
  "upload_ext node (named ''README'') = ''readme'' \<and>
   upload_ext node (named ''photo.'') = ''png'' \<and>
   upload_ext node (named []) = ''png'' \<and>
   upload_ext node (named ''photo.JPG'') = ''jpg''"
proof -
  have lower: "toLowerCase node ''README'' = ''readme''" "toLowerCase node ''png'' = ''png''"
    "toLowerCase node ''JPG'' = ''jpg''"
    by (simp_all add: node_def lower_char_def)
  have a: "upload_ext node (named ''README'') = toLowerCase node ''README''"
    using upload_extension_cases [of "named ''README''" node, THEN conjunct1, rule_format, of "''README''"]
    by (simp add: named_def)
  have b: "upload_ext node (named ''photo.'') = toLowerCase node ''png''"
    using upload_extension_cases [of "named ''photo.''" node, THEN conjunct2, THEN conjunct1]
    by (simp add: named_def)
  have c: "upload_ext node (named []) = toLowerCase node ''png''"
    using upload_extension_cases [of "named []" node, THEN conjunct2, THEN conjunct1]
    by (simp add: named_def)
  have d: "upload_ext node (named ''photo.JPG'') = toLowerCase node ''JPG''"
    using upload_extension_cases [of "named ''photo.JPG''" node, THEN conjunct2, THEN conjunct2,
        rule_format, of "''photo''" "''JPG''"]
    by (simp add: named_def)
  show ?thesis
    unfolding a b c d by (simp add: lower)
qed

section \<open>Properties of the client page\<close>

text \<open>
  Claim C4 does not hold as stated: a result reference stored before the operation is gone
  after a failed \<open>saveLocally\<close> or \<open>editWithGemini\<close>.
\<close>

theorem client_failure_counterexample:
  "resultUrl shown = Some ''/uploads/old.png'' \<and> \<not> ok failed \<and>
   resultUrl (saveLocally (upload_replies failed) shown) = None \<and>
   resultUrl (editWithGemini (edit_replies failed) object_url shown) = None"
  by (simp add: shown_def failed_def upload_replies_def edit_replies_def saveLocally_def
      saveLocally_begin_def saveLocally_resume_def editWithGemini_def editWithGemini_begin_def
      editWithGemini_resume_def)

text \<open>
  Claim C4, amended. When \<open>saveLocally\<close> or \<open>editWithGemini\<close> receives a response that is not
  \<open>ok\<close>, the page ends with the loading state cleared, the error set to the \<open>error\<close> member of
  the response body (or to the operation's fallback text when there is none) and the result
  reference null: it was cleared when the operation began. The selected file and the
  instruction are as before.
\<close>

theorem client_failure_frame:
  assumes "page_file s = Some f" and "\<not> ok res"
  shows "(fetch_upload f = Inr res \<longrightarrow>
            saveLocally fetch_upload s =
              s\<lparr>loading := None, error := Some (error_or ''Upload failed'' (json res)),
                resultUrl := None\<rparr>) \<and>
         (fetch_edit f (instruction s) = Inr res \<longrightarrow>
            editWithGemini fetch_edit createObjectURL s =
              s\<lparr>loading := None,
                error := Some (error_or ''Edit failed (check your /api/photobooth/edit backend)'' (json res)),
                resultUrl := None\<rparr>)"
  using assms
  by (simp add: saveLocally_def saveLocally_begin_def saveLocally_resume_def editWithGemini_def
      editWithGemini_begin_def editWithGemini_resume_def)

text \<open>Both operations on a page that shows an earlier result, with a 400 answer.\<close>

theorem client_failure_frame_witness:
  "saveLocally (upload_replies failed) shown =
     \<lparr>page_file = Some photo, instruction = ''Corporate headshot'', loading = None,
      resultUrl = None, error = Some ''Missing file''\<rparr> \<and>
   editWithGemini (edit_replies failed) object_url shown =
     \<lparr>page_file = Some photo, instruction = ''Corporate headshot'', loading = None,
      resultUrl = None, error = Some ''Missing file''\<rparr>"
proof -
  have pre: "page_file shown = Some photo" "\<not> ok failed"
    by (simp_all add: shown_def failed_def)
  have "upload_replies failed photo = Inr failed" "edit_replies failed photo (instruction shown) = Inr failed"
    by (simp_all add: upload_replies_def edit_replies_def)
  with client_failure_frame [OF pre, of "upload_replies failed" "edit_replies failed" object_url]
  show ?thesis
    by (simp add: shown_def failed_def error_or_def)
qed

section \<open>Properties of the countdown\<close>

lemmas booth_eval = camera_on_def mounted_def step_def startCountdown_def interval_callback_def
  updater_def render_def clear_current_def clearInterval_def captureFrame_def Let_def

text \<open>
  Claim C8. The capture is to fire exactly once per countdown, and a call of
  \<open>startCountdown\<close> during a countdown is to be ignored. \<open>captureFrame()\<close> is called inside
  the updater given to \<open>setCountdown\<close>, and React invokes an updater twice under StrictMode:
  at the fifth firing of a countdown the capture then fires twice (once when every updater is
  invoked once). \<open>startCountdown\<close> tests the \<open>isCountingDown\<close> of its render: a second call
  from the same render is not ignored, it clears the first interval and starts a second one,
  while a call after the next render changes nothing.
\<close>

theorem countdown_capture_twice:
  "captures (run True
      [StartCountdown, Render, Fire 1, Render, Fire 1, Render, Fire 1, Render, Fire 1, Render,
       Fire 1, Render] camera_on) = 2 \<and>
   captures (run False
      [StartCountdown, Render, Fire 1, Render, Fire 1, Render, Fire 1, Render, Fire 1, Render,
       Fire 1, Render] camera_on) = 1 \<and>
   captures (run True
      [StartCountdown, Render, Fire 1, Render, Fire 1, Render, Fire 1, Render, Fire 1, Render]
      camera_on) = 0 \<and>
   countdownTimer (run False [StartCountdown] camera_on) = Some 1 \<and>
   intervals (run False [StartCountdown] camera_on) = {1} \<and>
   countdownTimer (run False [StartCountdown, StartCountdown] camera_on) = Some 2 \<and>
   intervals (run False [StartCountdown, StartCountdown] camera_on) = {2} \<and>
   run False [StartCountdown, Render, StartCountdown] camera_on =
     run False [StartCountdown, Render] camera_on"
  by (simp add: booth_eval)

end
